theory Spec2Isabelle
  imports Main
begin

section \<open>JavaScript values, errors and promises\<close>

text \<open>
  The values that cross the boundaries of the client: decoded JSON bodies, chat messages
  and reply fields. Numbers are only tested for truthiness by the code, so an integer
  payload stands for them. An object is an association list from property names to values.
\<close>

datatype jsval =
    JUndefined
  | JNull
  | JBool bool
  | JNum int
  | JStr string
  | JArr "jsval list"
  | JObj "(string \<times> jsval) list"

text \<open>An \<open>Error\<close> object (also \<open>TypeError\<close>, \<open>DOMException\<close>, ...): its name and message.\<close>

datatype js_error = JsError (err_name: string) (err_message: string)

text \<open>JavaScript can throw any value, not only error objects.\<close>

datatype thrown = ErrorObj js_error | Value jsval

text \<open>How an \<open>async\<close> function settles.\<close>

datatype 'a promise = Resolved 'a | Rejected thrown

text \<open>Truthiness, as \<open>if (v)\<close>, \<open>!v\<close>, \<open>a || b\<close> and \<open>a && b\<close> test it.\<close>

fun truthy :: "jsval \<Rightarrow> bool" where
  "truthy JUndefined = False"
| "truthy JNull = False"
| "truthy (JBool b) = b"
| "truthy (JNum n) = (n \<noteq> 0)"
| "truthy (JStr s) = (s \<noteq> [])"
| "truthy (JArr vs) = True"
| "truthy (JObj kvs) = True"

definition js_or :: "jsval \<Rightarrow> jsval \<Rightarrow> jsval" where
  "js_or a b = (if truthy a then a else b)"

text \<open>
  Reading a property \<open>v.key\<close>, for the keys the client reads (\<open>response\<close>, \<open>message\<close>):
  \<open>undefined\<close> and \<open>null\<close> raise a \<open>TypeError\<close>, an object yields the property or
  \<open>undefined\<close>, every other value has no such property.
\<close>

fun get_prop :: "jsval \<Rightarrow> string \<Rightarrow> js_error + jsval" where
  "get_prop JUndefined key =
     Inl (JsError ''TypeError'' (''Cannot read properties of undefined (reading '' @ key @ '')''))"
| "get_prop JNull key =
     Inl (JsError ''TypeError'' (''Cannot read properties of null (reading '' @ key @ '')''))"
| "get_prop (JObj kvs) key = Inr (case map_of kvs key of None \<Rightarrow> JUndefined | Some v \<Rightarrow> v)"
| "get_prop v key = Inr JUndefined"

text \<open>\<open>error.message\<close> in a \<open>catch\<close> block, where \<open>error\<close> is whatever was thrown.\<close>

fun thrown_message :: "thrown \<Rightarrow> js_error + jsval" where
  "thrown_message (ErrorObj e) = Inr (JStr (err_message e))"
| "thrown_message (Value v) = get_prop v ''message''"

text \<open>Decimal rendering of a non-negative integer in a template literal.\<close>

definition digit_char :: "nat \<Rightarrow> char" where
  "digit_char d = ''0123456789'' ! d"

function decimal :: "nat \<Rightarrow> string" where
  "decimal n = (if n < 10 then [digit_char n] else decimal (n div 10) @ [digit_char (n mod 10)])"
  by pat_completeness auto
termination
  by (relation "measure (\<lambda>n. n)") auto

declare decimal.simps [simp del]

section \<open>The transport\<close>

text \<open>
  \<open>fetch\<close> is the environment. One attempt either rejects (a network failure; an
  \<open>AbortError\<close> when the attempt's timer aborted it) or delivers a response with its
  \<open>ok\<close> flag, status, status text and the outcome of decoding its body with
  \<open>response.json()\<close>.
\<close>

datatype fetch_outcome =
    FetchRejected js_error
  | FetchResponse bool nat string "js_error + jsval"

text \<open>The \<open>options\<close> argument handed on to \<open>fetch\<close>; the body is the value serialised.\<close>

record http_options =
  http_method :: "string option"
  http_body :: "jsval option"

definition no_options :: http_options where
  "no_options = \<lparr>http_method = None, http_body = None\<rparr>"

text \<open>What a call does to the outside world, in order.\<close>

datatype net_event =
    Fetch nat string http_options nat
  | Delay nat

fun is_fetch :: "net_event \<Rightarrow> bool" where
  "is_fetch (Fetch k url opts t) = True"
| "is_fetch (Delay ms) = False"

section \<open>AetherClient\<close>

definition AETHER_BASE_URL :: string where
  "AETHER_BASE_URL = ''http://localhost:8000''"

definition REQUEST_TIMEOUT :: nat where
  "REQUEST_TIMEOUT = 30000"

definition CHAT_TIMEOUT :: nat where
  "CHAT_TIMEOUT = 90000"

record client =
  baseUrl :: string
  retryCount :: nat
  retryDelay :: nat
  sessionId :: string
  isRequestInProgress :: bool

subsection \<open>request\<close>

text \<open>
  The \<open>try\<close> block of one attempt: a rejected \<open>fetch\<close> throws, a response that is not
  \<open>ok\<close> throws \<open>HTTP <status>: <statusText>\<close>, and otherwise the decoded body is the
  result (or the decoding error is thrown).
\<close>

definition attempt_result :: "fetch_outcome \<Rightarrow> js_error + jsval" where
  "attempt_result out =
     (case out of
        FetchRejected e \<Rightarrow> Inl e
      | FetchResponse ok status statusText body \<Rightarrow>
          if \<not> ok then Inl (JsError ''Error'' (''HTTP '' @ decimal status @ '': '' @ statusText))
          else body)"

text \<open>\<open>delay(ms)\<close>: the caller waits \<open>ms\<close> milliseconds.\<close>

definition delay :: "nat \<Rightarrow> net_event list" where
  "delay ms = [Delay ms]"

text \<open>
  The methods of a class are strict code. The error that an aborted \<open>fetch\<close> rejects with
  is a \<open>DOMException\<close>, whose \<open>message\<close> is an accessor with a getter only, so an
  assignment to it throws this \<open>TypeError\<close> (the wording is the engine's).
\<close>

definition message_getter_only :: js_error where
  "message_getter_only =
     JsError ''TypeError''
       ''Cannot set property message of [object DOMException] which has only a getter''"

text \<open>
  The \<open>for\<close> loop of \<open>request\<close>, from attempt number \<open>attempt\<close> on. The transport gives
  the outcome of each attempt by its number; the abort controller that
  \<open>createAbortController\<close> arms for the attempt shows as the timeout of the \<open>Fetch\<close>
  event and as an \<open>AbortError\<close> outcome when it fires. On an \<open>AbortError\<close> the \<open>catch\<close>
  block first assigns \<open>error.message\<close>; that assignment throws, out of the \<open>catch\<close>
  block, so \<open>request\<close> rejects at once with no wait and no further attempt. The test for
  an \<open>AbortError\<close> on the last attempt is kept where the source has it. A loop that never
  runs (\<open>retryCount = 0\<close>) falls off the end: the call resolves to \<open>undefined\<close>.
\<close>

function request_loop ::
  "client \<Rightarrow> string \<Rightarrow> http_options \<Rightarrow> nat \<Rightarrow> (nat \<Rightarrow> fetch_outcome) \<Rightarrow> nat
     \<Rightarrow> (js_error + jsval) \<times> net_event list" where
  "request_loop c url opts timeout transport attempt =
     (if attempt \<le> retryCount c then
        (case attempt_result (transport attempt) of
           Inr data \<Rightarrow> (Inr data, [Fetch attempt url opts timeout])
         | Inl error \<Rightarrow>
             if err_name error = ''AbortError'' then
               (Inl message_getter_only, [Fetch attempt url opts timeout])
             else if attempt = retryCount c then
               (if err_name error = ''AbortError''
                then (Inl (JsError ''Error''
                        ''The AI is taking too long to respond. Please try again.''),
                      [Fetch attempt url opts timeout])
                else (Inl (JsError ''Error'' (''Connection failed: '' @ err_message error)),
                      [Fetch attempt url opts timeout]))
             else
               (case request_loop c url opts timeout transport (attempt + 1) of
                  (r, evs) \<Rightarrow>
                    (r, Fetch attempt url opts timeout # delay (retryDelay c * attempt) @ evs)))
      else (Inr JUndefined, []))"
  by pat_completeness auto
termination
  by (relation "measure (\<lambda>(c, url, opts, timeout, transport, attempt). retryCount c + 1 - attempt)")
     auto

declare request_loop.simps [simp del]

text \<open>\<open>customTimeout || REQUEST_TIMEOUT\<close>: \<open>null\<close> and \<open>0\<close> select the default.\<close>

definition effective_timeout :: "nat option \<Rightarrow> nat" where
  "effective_timeout customTimeout =
     (case customTimeout of
        None \<Rightarrow> REQUEST_TIMEOUT
      | Some t \<Rightarrow> if t = 0 then REQUEST_TIMEOUT else t)"

definition request ::
  "client \<Rightarrow> string \<Rightarrow> http_options \<Rightarrow> nat option \<Rightarrow> (nat \<Rightarrow> fetch_outcome)
     \<Rightarrow> (js_error + jsval) \<times> net_event list" where
  "request c endpoint opts customTimeout transport =
     request_loop c (baseUrl c @ endpoint) opts (effective_timeout customTimeout) transport 1"

subsection \<open>Session identity\<close>

text \<open>
  \<open>localStorage\<close> is a map from keys to strings. \<open>Date.now()\<close> and the suffix
  \<open>Math.random().toString(36).substring(7)\<close> come from the environment.
\<close>

type_synonym storage = "string \<rightharpoonup> string"

definition SESSION_KEY :: string where
  "SESSION_KEY = ''aether_session_id''"

definition new_session_id :: "nat \<Rightarrow> string \<Rightarrow> string" where
  "new_session_id now rnd = ''session_'' @ decimal now @ ''_'' @ rnd"

text \<open>\<open>!sessionId\<close> holds for a missing item (\<open>null\<close>) and for the empty string.\<close>

definition getOrCreateSessionId :: "storage \<Rightarrow> nat \<Rightarrow> string \<Rightarrow> string \<times> storage" where
  "getOrCreateSessionId st now rnd =
     (case st SESSION_KEY of
        None \<Rightarrow> (new_session_id now rnd, st(SESSION_KEY \<mapsto> new_session_id now rnd))
      | Some sid \<Rightarrow>
          if sid = [] then (new_session_id now rnd, st(SESSION_KEY \<mapsto> new_session_id now rnd))
          else (sid, st))"

definition clearSession :: "client \<Rightarrow> storage \<Rightarrow> nat \<Rightarrow> string \<Rightarrow> client \<times> storage" where
  "clearSession c st now rnd =
     (case getOrCreateSessionId (st(SESSION_KEY := None)) now rnd of
        (sid, st') \<Rightarrow> (c\<lparr>sessionId := sid\<rparr>, st'))"

text \<open>The constructor.\<close>

definition new_client :: "storage \<Rightarrow> nat \<Rightarrow> string \<Rightarrow> client \<times> storage" where
  "new_client st now rnd =
     (case getOrCreateSessionId st now rnd of
        (sid, st') \<Rightarrow>
          (\<lparr>baseUrl = AETHER_BASE_URL, retryCount = 3, retryDelay = 1000,
            sessionId = sid, isRequestInProgress = False\<rparr>, st'))"

subsection \<open>Chat\<close>

text \<open>The two shapes of the object \<open>sendChatMessage\<close> resolves to.\<close>

datatype chat_result =
    ChatSuccess jsval string string
  | ChatFailure jsval string string

text \<open>
  The stream callback: \<open>None\<close> is \<open>null\<close>; a function returns normally (\<open>None\<close>) or
  throws a value.
\<close>

type_synonym stream_callback = "(jsval \<Rightarrow> thrown option) option"

definition chat_single_flight_error :: js_error where
  "chat_single_flight_error =
     JsError ''Error'' ''Another request is already in progress. Please wait.''"

text \<open>
  \<open>sendChatMessage\<close> is an \<open>async\<close> function: it runs up to its \<open>await\<close> when called
  and the rest when the request has settled. \<open>chat_enter\<close> is the part before the
  \<open>await\<close>: the guard, which throws outside the \<open>try\<close>, and the setting of the flag.
\<close>

definition chat_enter :: "client \<Rightarrow> js_error + client" where
  "chat_enter c =
     (if isRequestInProgress c then Inl chat_single_flight_error
      else Inr (c\<lparr>isRequestInProgress := True\<rparr>))"

definition chat_request_body :: "client \<Rightarrow> jsval \<Rightarrow> string \<Rightarrow> jsval" where
  "chat_request_body c message ts =
     JObj [(''message'', message), (''session_id'', JStr (sessionId c)), (''timestamp'', JStr ts)]"

text \<open>\<open>if (onStreamUpdate && response.response) onStreamUpdate(response.response)\<close>\<close>

definition stream_update :: "stream_callback \<Rightarrow> jsval \<Rightarrow> thrown + unit" where
  "stream_update onStreamUpdate response =
     (case onStreamUpdate of
        None \<Rightarrow> Inr ()
      | Some f \<Rightarrow>
          (case get_prop response ''response'' of
             Inl e \<Rightarrow> Inl (ErrorObj e)
           | Inr r \<Rightarrow>
               if truthy r then (case f r of Some x \<Rightarrow> Inl x | None \<Rightarrow> Inr ())
               else Inr ()))"

text \<open>\<open>response.response || response.message || 'No response'\<close>\<close>

definition reply_text :: "jsval \<Rightarrow> thrown + jsval" where
  "reply_text response =
     (case get_prop response ''response'' of
        Inl e \<Rightarrow> Inl (ErrorObj e)
      | Inr r \<Rightarrow>
          if truthy r then Inr r
          else (case get_prop response ''message'' of
                  Inl e \<Rightarrow> Inl (ErrorObj e)
                | Inr m \<Rightarrow> Inr (js_or m (JStr ''No response''))))"

text \<open>The \<open>try\<close> block after the request has returned \<open>response\<close>.\<close>

definition chat_try :: "client \<Rightarrow> stream_callback \<Rightarrow> string \<Rightarrow> jsval \<Rightarrow> thrown + chat_result" where
  "chat_try c onStreamUpdate ts response =
     (case stream_update onStreamUpdate response of
        Inl x \<Rightarrow> Inl x
      | Inr u \<Rightarrow>
          (case reply_text response of
             Inl x \<Rightarrow> Inl x
           | Inr reply \<Rightarrow> Inr (ChatSuccess reply (sessionId c) ts)))"

text \<open>The \<open>catch\<close> block: it reads \<open>error.message\<close>, which itself throws on a nullish value.\<close>

definition chat_catch :: "client \<Rightarrow> string \<Rightarrow> thrown \<Rightarrow> chat_result promise" where
  "chat_catch c ts error =
     (case thrown_message error of
        Inl e \<Rightarrow> Rejected (ErrorObj e)
      | Inr m \<Rightarrow> Resolved (ChatFailure m (sessionId c) ts))"

text \<open>
  \<open>chat_settle\<close> is the part after the \<open>await\<close>, given how the request settled; the
  \<open>finally\<close> block clears the flag on every path.
\<close>

definition chat_settle ::
  "client \<Rightarrow> stream_callback \<Rightarrow> string \<Rightarrow> js_error + jsval \<Rightarrow> chat_result promise \<times> client" where
  "chat_settle c onStreamUpdate ts r =
     ((case r of
         Inl e \<Rightarrow> chat_catch c ts (ErrorObj e)
       | Inr response \<Rightarrow>
           (case chat_try c onStreamUpdate ts response of
              Inl x \<Rightarrow> chat_catch c ts x
            | Inr res \<Rightarrow> Resolved res)),
      c\<lparr>isRequestInProgress := False\<rparr>)"

text \<open>
  A whole call with nothing interleaved. \<open>ts1\<close> and \<open>ts2\<close> are the clock readings
  \<open>new Date().toISOString()\<close> for the request body and for the result.
\<close>

definition sendChatMessage ::
  "client \<Rightarrow> jsval \<Rightarrow> stream_callback \<Rightarrow> string \<Rightarrow> string \<Rightarrow> (nat \<Rightarrow> fetch_outcome)
     \<Rightarrow> chat_result promise \<times> client \<times> net_event list" where
  "sendChatMessage c message onStreamUpdate ts1 ts2 transport =
     (case chat_enter c of
        Inl e \<Rightarrow> (Rejected (ErrorObj e), c, [])
      | Inr c1 \<Rightarrow>
          (case request c1 ''/api/chat''
                  \<lparr>http_method = Some ''POST'',
                   http_body = Some (chat_request_body c1 message ts1)\<rparr>
                  (Some CHAT_TIMEOUT) transport of
             (r, evs) \<Rightarrow>
               (case chat_settle c1 onStreamUpdate ts2 r of
                  (p, c2) \<Rightarrow> (p, c2, evs))))"


text \<open>
  Chat calls interleaved on one client: \<open>CallChat\<close> is a call of \<open>sendChatMessage\<close>
  (its part before the \<open>await\<close>), \<open>SettleChat\<close> the settling of the request of the call
  that is awaiting it. \<open>in_flight\<close> counts the calls that are awaiting their request,
  \<open>turned_away\<close> the calls the guard rejected.
\<close>

datatype chat_event =
    CallChat
  | SettleChat stream_callback string "js_error + jsval"

record chat_sys =
  sys_client :: client
  in_flight :: nat
  turned_away :: nat

fun chat_step :: "chat_sys \<Rightarrow> chat_event \<Rightarrow> chat_sys" where
  "chat_step s CallChat =
     (case chat_enter (sys_client s) of
        Inl e \<Rightarrow> s\<lparr>turned_away := turned_away s + 1\<rparr>
      | Inr c1 \<Rightarrow> s\<lparr>sys_client := c1, in_flight := in_flight s + 1\<rparr>)"
| "chat_step s (SettleChat onStreamUpdate ts r) =
     (if in_flight s = 0 then s
      else s\<lparr>sys_client := snd (chat_settle (sys_client s) onStreamUpdate ts r),
             in_flight := in_flight s - 1\<rparr>)"

definition chat_start :: "client \<Rightarrow> chat_sys" where
  "chat_start c = \<lparr>sys_client = c\<lparr>isRequestInProgress := False\<rparr>, in_flight = 0, turned_away = 0\<rparr>"

definition chat_run :: "client \<Rightarrow> chat_event list \<Rightarrow> chat_sys" where
  "chat_run c evs = foldl chat_step (chat_start c) evs"

section \<open>ClaudeTerminal\<close>

text \<open>
  The pseudo-terminal library and the operating system are the environment. A process
  handle is the number of the spawn that created it. The terminal records the calls it
  makes on its handles and the events it emits, in order.
\<close>

datatype pty_call =
    Spawn nat string string nat nat
  | PtyWrite nat string
  | PtyResize nat int int
  | PtyKill nat

datatype term_event = Ready | Output string | Exit | ErrorEvent js_error

text \<open>A task: \<open>None\<close> is a property that is absent (\<open>undefined\<close>).\<close>

record task =
  title :: "string option"
  priority :: "string option"

text \<open>
  \<open>readyOnce\<close> holds the one-shot listeners that \<open>startClaude\<close> registers for the
  \<open>ready\<close> event, each with the arguments it closes over.
\<close>

record terminal =
  projectPath :: string
  ptyProcess :: "nat option"
  isRunning :: bool
  readyOnce :: "(task option \<times> string option) list"
  emitted :: "term_event list"
  pty_calls :: "pty_call list"
  spawned :: nat

text \<open>What \<open>startSession\<close> reads from the host, and whether \<open>pty.spawn\<close> throws.\<close>

record host =
  platform :: string
  env_SHELL :: "string option"
  spawn_error :: "js_error option"

text \<open>The constructor: \<open>projectPath || process.cwd()\<close>.\<close>

definition new_terminal :: "string option \<Rightarrow> string \<Rightarrow> terminal" where
  "new_terminal path cwd =
     \<lparr>projectPath = (case path of None \<Rightarrow> cwd | Some p \<Rightarrow> if p = [] then cwd else p),
      ptyProcess = None, isRunning = False, readyOnce = [], emitted = [], pty_calls = [],
      spawned = 0\<rparr>"

text \<open>\<open>write\<close> (the name is an Isar keyword, hence the suffix).\<close>

definition write_pty :: "string \<Rightarrow> terminal \<Rightarrow> terminal" where
  "write_pty data t =
     (case ptyProcess t of
        None \<Rightarrow> t
      | Some h \<Rightarrow> if isRunning t then t\<lparr>pty_calls := pty_calls t @ [PtyWrite h data]\<rparr> else t)"

definition resize :: "int \<Rightarrow> int \<Rightarrow> terminal \<Rightarrow> terminal" where
  "resize cols rows t =
     (case ptyProcess t of
        None \<Rightarrow> t
      | Some h \<Rightarrow> if isRunning t then t\<lparr>pty_calls := pty_calls t @ [PtyResize h cols rows]\<rparr> else t)"

text \<open>Rendering a property in a template literal.\<close>

definition template_str :: "string option \<Rightarrow> string" where
  "template_str v = (case v of None \<Rightarrow> ''undefined'' | Some s \<Rightarrow> s)"

definition option_truthy :: "string option \<Rightarrow> bool" where
  "option_truthy v = (case v of None \<Rightarrow> False | Some s \<Rightarrow> s \<noteq> [])"

text \<open>The command line that \<open>launchClaudeCode\<close> builds in its local \<open>claudeCommand\<close>.\<close>

definition claudeCommand :: "task option \<Rightarrow> string option \<Rightarrow> string" where
  \<open>claudeCommand currentTask contextData =
     ''claude''
     @ (case currentTask of
          None \<Rightarrow> []
        | Some tk \<Rightarrow>
            '' --context "Current Task: '' @ template_str (title tk) @ ''"''
            @ (if option_truthy (priority tk)
               then '' --context "Priority: '' @ template_str (priority tk) @ ''"''
               else []))
     @ (if option_truthy contextData
        then '' --context "'' @ template_str contextData @ ''"''
        else [])\<close>

text \<open>The banner line; the rocket emoji is written as its UTF-8 bytes.\<close>

definition banner :: string where
  \<open>banner = ''echo "'' @ [CHR 0xF0, CHR 0x9F, CHR 0x9A, CHR 0x80]
     @ '' Starting Claude Code in FlowSaver context..."'' @ [CHR 0x0A]\<close>

definition launchClaudeCode :: "task option \<Rightarrow> string option \<Rightarrow> terminal \<Rightarrow> terminal" where
  "launchClaudeCode currentTask contextData t =
     write_pty (claudeCommand currentTask contextData @ [CHR 0x0A]) (write_pty banner t)"

text \<open>\<open>emit('ready')\<close>: the one-shot listeners are removed and run in order.\<close>

definition emit_ready :: "terminal \<Rightarrow> terminal" where
  "emit_ready t =
     foldl (\<lambda>t' (currentTask, contextData). launchClaudeCode currentTask contextData t')
       (t\<lparr>readyOnce := [], emitted := emitted t @ [Ready]\<rparr>) (readyOnce t)"

definition select_shell :: "host \<Rightarrow> string" where
  "select_shell h =
     (if platform h = ''win32'' then ''powershell.exe''
      else (case env_SHELL h of
              None \<Rightarrow> ''/bin/bash''
            | Some s \<Rightarrow> if s = [] then ''/bin/bash'' else s))"

text \<open>
  When \<open>pty.spawn\<close> throws, the assignment to \<open>ptyProcess\<close> does not happen and the
  \<open>catch\<close> block emits \<open>error\<close>.
\<close>

definition startSession :: "host \<Rightarrow> terminal \<Rightarrow> terminal" where
  "startSession h t =
     (if isRunning t then t
      else (case spawn_error h of
              Some error \<Rightarrow> t\<lparr>emitted := emitted t @ [ErrorEvent error]\<rparr>
            | None \<Rightarrow>
                emit_ready
                  (t\<lparr>ptyProcess := Some (spawned t), isRunning := True,
                     pty_calls := pty_calls t @ [Spawn (spawned t) (select_shell h) (projectPath t) 80 24],
                     spawned := spawned t + 1\<rparr>)))"

definition startClaude :: "task option \<Rightarrow> string option \<Rightarrow> host \<Rightarrow> terminal \<Rightarrow> terminal" where
  "startClaude currentTask contextData h t =
     (if \<not> isRunning t then
        (case startSession h t of
           t1 \<Rightarrow> t1\<lparr>readyOnce := readyOnce t1 @ [(currentTask, contextData)]\<rparr>)
      else launchClaudeCode currentTask contextData t)"

definition kill :: "terminal \<Rightarrow> terminal" where
  "kill t =
     (case ptyProcess t of
        None \<Rightarrow> t
      | Some h \<Rightarrow> t\<lparr>pty_calls := pty_calls t @ [PtyKill h], isRunning := False\<rparr>)"

text \<open>
  The handlers \<open>startSession\<close> registers on the process it spawned: \<open>onData\<close> emits
  \<open>output\<close>, \<open>onExit\<close> clears the running flag and emits \<open>exit\<close>. Only a process that
  was spawned can call them.
\<close>

definition on_data :: "nat \<Rightarrow> string \<Rightarrow> terminal \<Rightarrow> terminal" where
  "on_data h data t = (if h < spawned t then t\<lparr>emitted := emitted t @ [Output data]\<rparr> else t)"

definition on_exit :: "nat \<Rightarrow> terminal \<Rightarrow> terminal" where
  "on_exit h t =
     (if h < spawned t then t\<lparr>isRunning := False, emitted := emitted t @ [Exit]\<rparr> else t)"

text \<open>Everything that can happen to one instance, and runs of such steps.\<close>

datatype term_op =
    StartSession host
  | Write string
  | Resize int int
  | StartClaude "task option" "string option" host
  | LaunchClaudeCode "task option" "string option"
  | Kill
  | ProcessData nat string
  | ProcessExit nat

fun term_step :: "terminal \<Rightarrow> term_op \<Rightarrow> terminal" where
  "term_step t (StartSession h) = startSession h t"
| "term_step t (Write data) = write_pty data t"
| "term_step t (Resize cols rows) = resize cols rows t"
| "term_step t (StartClaude currentTask contextData h) = startClaude currentTask contextData h t"
| "term_step t (LaunchClaudeCode currentTask contextData) = launchClaudeCode currentTask contextData t"
| "term_step t Kill = kill t"
| "term_step t (ProcessData h data) = on_data h data t"
| "term_step t (ProcessExit h) = on_exit h t"

definition term_run :: "terminal \<Rightarrow> term_op list \<Rightarrow> terminal" where
  "term_run t ops = foldl term_step t ops"

section \<open>Notions used in the statements\<close>

text \<open>An attempt fails when its \<open>try\<close> block throws, whatever the cause.\<close>

definition attempt_failed :: "fetch_outcome \<Rightarrow> bool" where
  "attempt_failed out = isl (attempt_result out)"

text \<open>An attempt is aborted when what its \<open>try\<close> block throws is an \<open>AbortError\<close>.\<close>

definition attempt_aborted :: "fetch_outcome \<Rightarrow> bool" where
  "attempt_aborted out =
     (case attempt_result out of Inl e \<Rightarrow> err_name e = ''AbortError'' | Inr data \<Rightarrow> False)"

text \<open>The events of the attempts \<open>a, ..., m - 1\<close> when each is followed by its backoff wait.\<close>

definition retry_events ::
  "client \<Rightarrow> string \<Rightarrow> http_options \<Rightarrow> nat \<Rightarrow> nat \<Rightarrow> nat \<Rightarrow> net_event list" where
  "retry_events c url opts timeout a m =
     concat (map (\<lambda>k. [Fetch k url opts timeout, Delay (retryDelay c * k)]) [a..<m])"

text \<open>Reading a decimal numeral back.\<close>

definition is_digit :: "char \<Rightarrow> bool" where
  "is_digit ch = (ch \<in> set ''0123456789'')"

definition digit_value :: "char \<Rightarrow> nat" where
  "digit_value ch = of_char ch - 48"

definition read_decimal :: "string \<Rightarrow> nat" where
  "read_decimal s = foldl (\<lambda>acc ch. 10 * acc + digit_value ch) 0 s"



text \<open>A running terminal holds a process handle.\<close>

definition handle_inv :: "terminal \<Rightarrow> bool" where
  "handle_inv t = (if isRunning t then ptyProcess t \<noteq> None else True)"

text \<open>
  A host on which \<open>pty.spawn\<close> succeeds; transports that never connect, that always
  answer 404, and whose every attempt is aborted by its timer.
\<close>

definition linux_host :: host where
  "linux_host = \<lparr>platform = ''linux'', env_SHELL = Some ''/bin/zsh'', spawn_error = None\<rparr>"

definition offline :: "nat \<Rightarrow> fetch_outcome" where
  "offline k = FetchRejected (JsError ''TypeError'' ''Failed to fetch'')"

definition not_found :: "nat \<Rightarrow> fetch_outcome" where
  "not_found k = FetchResponse False 404 ''Not Found'' (Inr JNull)"

definition timing_out :: "nat \<Rightarrow> fetch_outcome" where
  "timing_out k = FetchRejected (JsError ''AbortError'' ''The user aborted a request.'')"

text \<open>A service that cannot be reached twice and then times out.\<close>

definition late_timeout :: "nat \<Rightarrow> fetch_outcome" where
  "late_timeout k =
     (if k < 3 then FetchRejected (JsError ''TypeError'' ''Failed to fetch'')
      else FetchRejected (JsError ''AbortError'' ''The user aborted a request.''))"

text \<open>The client the constructor builds on an empty storage.\<close>

definition fresh_client :: client where
  "fresh_client = fst (new_client Map.empty 1700000000000 ''k3x9f'')"


text \<open>
  The flag is set exactly when one call is awaiting its request, and no more than one is.
\<close>

definition chat_inv :: "chat_sys \<Rightarrow> bool" where
  "chat_inv s = (in_flight s \<le> 1 \<and> isRequestInProgress (sys_client s) = (in_flight s = 1))"

text \<open>A client with a chat call outstanding, and a service that answers at once.\<close>

definition busy_client :: client where
  "busy_client = fresh_client\<lparr>isRequestInProgress := True\<rparr>"

definition ok_reply :: "nat \<Rightarrow> fetch_outcome" where
  "ok_reply k = FetchResponse True 200 ''OK'' (Inr (JObj [(''response'', JStr ''Hello!'')]))"

section \<open>Properties of request\<close>

subsection \<open>Unfolding the loop\<close>

lemma retry_events_step:
  "a < m \<Longrightarrow> retry_events c url opts t a m =
     Fetch a url opts t # Delay (retryDelay c * a) # retry_events c url opts t (Suc a) m"
  by (simp add: retry_events_def upt_conv_Cons)

lemma retry_events_empty [simp]: "m \<le> a \<Longrightarrow> retry_events c url opts t a m = []"
  by (simp add: retry_events_def)

lemma filter_fetch_retry_events [simp]:
  "length (filter is_fetch (retry_events c url opts t a m)) = m - a"
  by (induction m) (auto simp: retry_events_def Suc_diff_le)

lemma length_retry_events [simp]: "length (retry_events c url opts t a m) = 2 * (m - a)"
  by (induction m) (auto simp: retry_events_def Suc_diff_le)


lemma request_loop_done:
  "retryCount c < a \<Longrightarrow> request_loop c url opts t tr a = (Inr JUndefined, [])"
  by (subst request_loop.simps) simp

lemma request_loop_ok:
  "a \<le> retryCount c \<Longrightarrow> attempt_result (tr a) = Inr d \<Longrightarrow>
   request_loop c url opts t tr a = (Inr d, [Fetch a url opts t])"
  by (subst request_loop.simps) simp

lemma request_loop_abort:
  "a \<le> retryCount c \<Longrightarrow> attempt_result (tr a) = Inl e \<Longrightarrow> err_name e = ''AbortError'' \<Longrightarrow>
   request_loop c url opts t tr a = (Inl message_getter_only, [Fetch a url opts t])"
  by (subst request_loop.simps) simp

lemma request_loop_last:
  "attempt_result (tr (retryCount c)) = Inl e \<Longrightarrow> err_name e \<noteq> ''AbortError'' \<Longrightarrow>
   request_loop c url opts t tr (retryCount c) =
     (Inl (JsError ''Error'' (''Connection failed: '' @ err_message e)),
      [Fetch (retryCount c) url opts t])"
  by (subst request_loop.simps) simp

lemma request_loop_retry:
  "a < retryCount c \<Longrightarrow> attempt_result (tr a) = Inl e \<Longrightarrow> err_name e \<noteq> ''AbortError'' \<Longrightarrow>
   request_loop c url opts t tr a =
     (fst (request_loop c url opts t tr (Suc a)),
      Fetch a url opts t # Delay (retryDelay c * a) # snd (request_loop c url opts t tr (Suc a)))"
  by (subst request_loop.simps) (simp add: delay_def split: prod.splits)

lemma failed_unabortedE:
  assumes "attempt_failed out" and "\<not> attempt_aborted out"
  obtains e where "attempt_result out = Inl e" and "err_name e \<noteq> ''AbortError''"
  using assms by (auto simp: attempt_failed_def attempt_aborted_def isl_def)





text \<open>Attempts that fail without being aborted are each followed by a wait and the next attempt.\<close>

lemma request_loop_prefix:
  "a \<le> Suc k \<Longrightarrow> k < retryCount c \<Longrightarrow>
   (\<forall>j. a \<le> j \<and> j \<le> k \<longrightarrow> attempt_failed (tr j) \<and> \<not> attempt_aborted (tr j)) \<Longrightarrow>
   request_loop c url opts t tr a =
     (fst (request_loop c url opts t tr (Suc k)),
      retry_events c url opts t a (Suc k) @ snd (request_loop c url opts t tr (Suc k)))"
proof (induction "Suc k - a" arbitrary: a)
  case 0
  then have "a = Suc k" by simp
  then show ?case by simp
next
  case (Suc d)
  then have lt: "a < Suc k" and fa: "attempt_failed (tr a)" and na: "\<not> attempt_aborted (tr a)"
    by auto
  from fa na obtain e where e: "attempt_result (tr a) = Inl e" "err_name e \<noteq> ''AbortError''"
    by (rule failed_unabortedE)
  have ih: "request_loop c url opts t tr (Suc a) =
     (fst (request_loop c url opts t tr (Suc k)),
      retry_events c url opts t (Suc a) (Suc k) @ snd (request_loop c url opts t tr (Suc k)))"
    using Suc by (intro Suc.hyps(1)) auto
  from lt Suc.prems(2) have "a < retryCount c" by simp
  then show ?case using lt e ih by (simp add: request_loop_retry retry_events_step)
qed

lemma request_unaborted_failures:
  assumes "1 \<le> retryCount c"
    and "\<forall>k. 1 \<le> k \<and> k \<le> retryCount c \<longrightarrow> attempt_failed (transport k) \<and> \<not> attempt_aborted (transport k)"
    and "attempt_result (transport (retryCount c)) = Inl e"
  shows "request c endpoint opts customTimeout transport =
     (Inl (JsError ''Error'' (''Connection failed: '' @ err_message e)),
      retry_events c (baseUrl c @ endpoint) opts (effective_timeout customTimeout) 1 (retryCount c)
        @ [Fetch (retryCount c) (baseUrl c @ endpoint) opts (effective_timeout customTimeout)])"
proof -
  let ?url = "baseUrl c @ endpoint" and ?t = "effective_timeout customTimeout"
  obtain n where n: "retryCount c = Suc n" using assms(1) by (cases "retryCount c") simp_all
  from assms(2,3) have na: "err_name e \<noteq> ''AbortError''"
    using assms(1) by (auto simp: attempt_aborted_def)
  have last: "request_loop c ?url opts ?t transport (retryCount c) =
      (Inl (JsError ''Error'' (''Connection failed: '' @ err_message e)), [Fetch (retryCount c) ?url opts ?t])"
    using assms(3) na by (rule request_loop_last)
  show ?thesis
  proof (cases n)
    case 0
    with n last show ?thesis by (simp add: request_def)
  next
    case (Suc m)
    have "request_loop c ?url opts ?t transport 1 =
       (fst (request_loop c ?url opts ?t transport (Suc n)),
        retry_events c ?url opts ?t 1 (Suc n) @ snd (request_loop c ?url opts ?t transport (Suc n)))"
      using assms(2) n Suc by (intro request_loop_prefix) auto
    with last n show ?thesis by (simp add: request_def)
  qed
qed

lemma fresh_client_fields:
  "retryCount fresh_client = 3" "retryDelay fresh_client = 1000"
  "baseUrl fresh_client = ''http://localhost:8000''" "\<not> isRequestInProgress fresh_client"
  by (simp_all add: fresh_client_def new_client_def getOrCreateSessionId_def AETHER_BASE_URL_def)

lemma upt_1_3: "[Suc 0..<3] = [Suc 0, 2]"
  by (simp add: upt_rec)

lemma request_timing_out:
  "1 \<le> retryCount c \<Longrightarrow>
   request c endpoint opts customTimeout timing_out =
     (Inl message_getter_only,
      [Fetch 1 (baseUrl c @ endpoint) opts (effective_timeout customTimeout)])"
  unfolding request_def
  by (rule request_loop_abort [where e = "JsError ''AbortError'' ''The user aborted a request.''"])
     (simp_all add: attempt_result_def timing_out_def)

lemma request_not_found:
  "request fresh_client endpoint opts customTimeout not_found =
     (Inl (JsError ''Error'' ''Connection failed: HTTP 404: Not Found''),
      [Fetch 1 (''http://localhost:8000'' @ endpoint) opts (effective_timeout customTimeout),
       Delay 1000,
       Fetch 2 (''http://localhost:8000'' @ endpoint) opts (effective_timeout customTimeout),
       Delay 2000,
       Fetch 3 (''http://localhost:8000'' @ endpoint) opts (effective_timeout customTimeout)])"
proof -
  have d: "decimal 404 = ''404''" by (simp add: decimal.simps digit_char_def)
  have r: "attempt_result (not_found (retryCount fresh_client))
      = Inl (JsError ''Error'' ''HTTP 404: Not Found'')"
    by (simp add: attempt_result_def not_found_def d)
  have f: "\<forall>k. 1 \<le> k \<and> k \<le> retryCount fresh_client \<longrightarrow>
      attempt_failed (not_found k) \<and> \<not> attempt_aborted (not_found k)"
    by (simp add: attempt_failed_def attempt_aborted_def attempt_result_def not_found_def)
  have one: "1 \<le> retryCount fresh_client" by (simp add: fresh_client_fields)
  show ?thesis
    using request_unaborted_failures [OF one f r, of endpoint opts customTimeout]
    by (simp add: fresh_client_fields retry_events_def upt_1_3)
qed


text \<open>The branch for a timeout on the last attempt is dead: its error is never thrown.\<close>

lemma request_loop_never_too_long:
  "fst (request_loop c url opts t tr a)
     \<noteq> Inl (JsError ''Error'' ''The AI is taking too long to respond. Please try again.'')"
proof (induction "retryCount c + 1 - a" arbitrary: a)
  case 0
  then show ?case by (simp add: request_loop_done)
next
  case (Suc d)
  then have le: "a \<le> retryCount c" by simp
  show ?case
  proof (cases "attempt_result (tr a)")
    case (Inr v)
    with le show ?thesis by (simp add: request_loop_ok)
  next
    case (Inl e)
    show ?thesis
    proof (cases "err_name e = ''AbortError''")
      case True
      with le Inl show ?thesis by (simp add: request_loop_abort message_getter_only_def)
    next
      case na: False
      show ?thesis
      proof (cases "a = retryCount c")
        case True
        with Inl na show ?thesis by (simp add: request_loop_last)
      next
        case False
        with le have lt: "a < retryCount c" by simp
        have "fst (request_loop c url opts t tr (Suc a))
            \<noteq> Inl (JsError ''Error'' ''The AI is taking too long to respond. Please try again.'')"
          using Suc by (intro Suc.hyps(1)) simp
        with lt Inl na show ?thesis by (simp add: request_loop_retry)
      qed
    qed
  qed
qed

text \<open>
  Claim C4 (exactly \<open>N\<close> attempts when every attempt fails) does not hold of the code
  when an attempt times out: the assignment to \<open>error.message\<close> in the \<open>catch\<close> block
  throws. The constructor's client (\<open>retryCount = 3\<close>) against a service whose every
  attempt times out: every attempt fails, yet the call makes one attempt, not three, and
  rejects with the \<open>TypeError\<close> of the assignment.
\<close>

theorem timeout_ends_request_after_one_attempt:
  "retryCount fresh_client = 3
   \<and> attempt_failed (timing_out 1) \<and> attempt_failed (timing_out 2) \<and> attempt_failed (timing_out 3)
   \<and> request fresh_client ''/health'' no_options None timing_out
       = (Inl message_getter_only, [Fetch 1 ''http://localhost:8000/health'' no_options 30000])
   \<and> length (filter is_fetch (snd (request fresh_client ''/health'' no_options None timing_out))) = 1"
  by (simp add: request_timing_out fresh_client_fields attempt_failed_def attempt_result_def
        timing_out_def effective_timeout_def REQUEST_TIMEOUT_def)



text \<open>
  Claim C6 (a timeout on the last attempt gives the "taking too long" error) does not
  hold of the code: the branch that throws that error tests for an \<open>AbortError\<close>, and for
  such an error the assignment to \<open>error.message\<close> a few lines earlier has already
  thrown. A call whose third and last attempt times out after two network failures
  rejects with the \<open>TypeError\<close> of the assignment, and no call at all throws the "taking
  too long" error.
\<close>

theorem timeout_never_reports_too_long:
  "fst (request fresh_client ''/health'' no_options None late_timeout) = Inl message_getter_only
   \<and> fst (request fresh_client ''/health'' no_options None late_timeout)
       \<noteq> Inl (JsError ''Error'' ''The AI is taking too long to respond. Please try again.'')
   \<and> length (filter is_fetch (snd (request fresh_client ''/health'' no_options None late_timeout))) = 3
   \<and> fst (request c endpoint opts customTimeout transport)
       \<noteq> Inl (JsError ''Error'' ''The AI is taking too long to respond. Please try again.'')"
proof -
  let ?url = "baseUrl fresh_client @ ''/health''" and ?t = "effective_timeout None"
  have f: "\<forall>j. 1 \<le> j \<and> j \<le> 2 \<longrightarrow> attempt_failed (late_timeout j) \<and> \<not> attempt_aborted (late_timeout j)"
    by (simp add: late_timeout_def attempt_failed_def attempt_aborted_def attempt_result_def)
  have pre: "request_loop fresh_client ?url no_options ?t late_timeout 1 =
     (fst (request_loop fresh_client ?url no_options ?t late_timeout (Suc 2)),
      retry_events fresh_client ?url no_options ?t 1 (Suc 2)
        @ snd (request_loop fresh_client ?url no_options ?t late_timeout (Suc 2)))"
    using f by (intro request_loop_prefix) (simp_all add: fresh_client_fields)
  have last: "request_loop fresh_client ?url no_options ?t late_timeout (Suc 2) =
      (Inl message_getter_only, [Fetch (Suc 2) ?url no_options ?t])"
    by (rule request_loop_abort [where e = "JsError ''AbortError'' ''The user aborted a request.''"])
       (simp_all add: fresh_client_fields attempt_result_def late_timeout_def)
  have r: "request fresh_client ''/health'' no_options None late_timeout =
      (Inl message_getter_only,
       retry_events fresh_client ?url no_options ?t 1 (Suc 2) @ [Fetch (Suc 2) ?url no_options ?t])"
    using pre last by (simp add: request_def)
  have g: "fst (request c endpoint opts customTimeout transport)
       \<noteq> Inl (JsError ''Error'' ''The AI is taking too long to respond. Please try again.'')"
    unfolding request_def by (rule request_loop_never_too_long)
  show ?thesis unfolding r using g by (simp add: message_getter_only_def)
qed

text \<open>
  Claim C7 (a non-success status is retried exactly like a network failure or a timeout)
  does not hold of the code for the timeout: a response that is not \<open>ok\<close> and a
  network failure are retried alike, but a timeout is not retried at all. Against a
  service that always answers 404, and against one that never connects, the constructor's
  client makes three attempts with waits of 1000 and 2000; against one whose attempts time
  out it makes one attempt, waits for nothing and rejects with the \<open>TypeError\<close> of the
  assignment to \<open>error.message\<close>.
\<close>

theorem timeout_not_retried_like_status:
  "snd (request fresh_client ''/stats'' no_options None not_found) =
     [Fetch 1 ''http://localhost:8000/stats'' no_options 30000, Delay 1000,
      Fetch 2 ''http://localhost:8000/stats'' no_options 30000, Delay 2000,
      Fetch 3 ''http://localhost:8000/stats'' no_options 30000]
   \<and> snd (request fresh_client ''/stats'' no_options None offline)
       = snd (request fresh_client ''/stats'' no_options None not_found)
   \<and> request fresh_client ''/stats'' no_options None timing_out
       = (Inl message_getter_only, [Fetch 1 ''http://localhost:8000/stats'' no_options 30000])"
proof -
  have one: "1 \<le> retryCount fresh_client" by (simp add: fresh_client_fields)
  have o: "\<forall>k. 1 \<le> k \<and> k \<le> retryCount fresh_client \<longrightarrow>
      attempt_failed (offline k) \<and> \<not> attempt_aborted (offline k)"
    by (simp add: attempt_failed_def attempt_aborted_def attempt_result_def offline_def)
  have oe: "attempt_result (offline (retryCount fresh_client)) = Inl (JsError ''TypeError'' ''Failed to fetch'')"
    by (simp add: attempt_result_def offline_def)
  have off: "snd (request fresh_client ''/stats'' no_options None offline) =
     [Fetch 1 ''http://localhost:8000/stats'' no_options 30000, Delay 1000,
      Fetch 2 ''http://localhost:8000/stats'' no_options 30000, Delay 2000,
      Fetch 3 ''http://localhost:8000/stats'' no_options 30000]"
    using request_unaborted_failures [OF one o oe, of "''/stats''" no_options None]
    by (simp add: fresh_client_fields retry_events_def upt_1_3 effective_timeout_def REQUEST_TIMEOUT_def)
  show ?thesis
    using off
    by (simp add: request_not_found request_timing_out fresh_client_fields effective_timeout_def
          REQUEST_TIMEOUT_def)
qed

section \<open>Properties of the session identity\<close>

subsection \<open>Decimal numerals\<close>

lemma lt10_cases: "d < 10 \<Longrightarrow> d \<in> {0, 1, 2, 3, 4, 5, 6, 7, 8, 9::nat}"
  by auto

lemma digit_value_digit_char: "d < 10 \<Longrightarrow> digit_value (digit_char d) = d"
  using lt10_cases [of d] by (auto simp: digit_value_def digit_char_def)

lemma is_digit_digit_char: "d < 10 \<Longrightarrow> is_digit (digit_char d)"
  using lt10_cases [of d] by (auto simp: is_digit_def digit_char_def)

lemma read_decimal_snoc: "read_decimal (s @ [ch]) = 10 * read_decimal s + digit_value ch"
  by (simp add: read_decimal_def)

lemma read_decimal_decimal: "read_decimal (decimal n) = n"
proof (induction n rule: decimal.induct)
  case (1 n)
  show ?case
  proof (cases "n < 10")
    case True
    then show ?thesis
      by (subst decimal.simps) (simp add: read_decimal_def digit_value_digit_char)
  next
    case False
    with 1 have "read_decimal (decimal (n div 10)) = n div 10" by simp
    with False show ?thesis
      by (subst decimal.simps) (simp add: read_decimal_snoc digit_value_digit_char)
  qed
qed

lemma decimal_digits: "\<forall>ch \<in> set (decimal n). is_digit ch"
proof (induction n rule: decimal.induct)
  case (1 n)
  show ?case
  proof (cases "n < 10")
    case True
    then show ?thesis by (subst decimal.simps) (simp add: is_digit_digit_char)
  next
    case False
    with 1 have "\<forall>ch \<in> set (decimal (n div 10)). is_digit ch" by simp
    with False show ?thesis by (subst decimal.simps) (simp add: is_digit_digit_char)
  qed
qed

lemma decimal_inj: "decimal a = decimal b \<Longrightarrow> a = b"
  by (metis read_decimal_decimal)

lemma takeWhile_digits:
  "\<forall>ch \<in> set ds. is_digit ch \<Longrightarrow> takeWhile is_digit (ds @ CHR ''_'' # rest) = ds"
  by (simp add: is_digit_def)

lemma new_session_id_clock:
  assumes "new_session_id a r = new_session_id b r'"
  shows "a = b"
proof -
  from assms have eq: "decimal a @ CHR ''_'' # r = decimal b @ CHR ''_'' # r'"
    by (simp add: new_session_id_def)
  have "takeWhile is_digit (decimal a @ CHR ''_'' # r) = decimal a"
    by (rule takeWhile_digits) (rule decimal_digits)
  moreover have "takeWhile is_digit (decimal b @ CHR ''_'' # r') = decimal b"
    by (rule takeWhile_digits) (rule decimal_digits)
  ultimately have "decimal a = decimal b" using eq by simp
  then show ?thesis by (rule decimal_inj)
qed

subsection \<open>Reading, creating and clearing the token\<close>

lemma new_session_id_nonempty: "new_session_id now rnd \<noteq> []"
  by (simp add: new_session_id_def)

lemma getOrCreate_returns_stored:
  "snd (getOrCreateSessionId st now rnd) SESSION_KEY = Some (fst (getOrCreateSessionId st now rnd))
   \<and> fst (getOrCreateSessionId st now rnd) \<noteq> []"
  by (simp add: getOrCreateSessionId_def new_session_id_nonempty split: option.splits)

lemma getOrCreate_existing:
  "st SESSION_KEY = Some sid \<Longrightarrow> sid \<noteq> [] \<Longrightarrow> getOrCreateSessionId st now rnd = (sid, st)"
  by (simp add: getOrCreateSessionId_def)

lemma getOrCreate_twice:
  "getOrCreateSessionId (snd (getOrCreateSessionId st now rnd)) now' rnd'
     = getOrCreateSessionId st now rnd"
  using getOrCreate_returns_stored [of st now rnd]
    getOrCreate_existing [of "snd (getOrCreateSessionId st now rnd)"
      "fst (getOrCreateSessionId st now rnd)" now' rnd']
  by simp

lemma clearSession_eq:
  "clearSession c st now rnd =
     (c\<lparr>sessionId := new_session_id now rnd\<rparr>,
      st(SESSION_KEY \<mapsto> new_session_id now rnd))"
  by (simp add: clearSession_def getOrCreateSessionId_def)

lemma get_after_clear:
  "fst (getOrCreateSessionId (snd (clearSession c st now rnd)) now' rnd') = new_session_id now rnd"
  by (simp add: clearSession_eq getOrCreate_existing new_session_id_nonempty)

text \<open>
  Claim C8 as stated fails in its second part: the replacement token is built from the
  clock reading and the random suffix alone. A client constructed on an empty storage at
  clock reading 1700000000000 with suffix \<open>k3x9f\<close> holds \<open>session_1700000000000_k3x9f\<close>;
  when \<open>clearSession\<close> runs at the same reading with the same suffix, \<open>getOrCreateSessionId\<close>
  afterwards returns that very token.
\<close>

theorem clear_then_get_same_token:
  "fst (getOrCreateSessionId (snd (new_client Map.empty 1700000000000 ''k3x9f'')) 1700000000000 ''k3x9f'')
     = ''session_1700000000000_k3x9f''
   \<and> fst (getOrCreateSessionId
          (snd (clearSession fresh_client (snd (new_client Map.empty 1700000000000 ''k3x9f''))
                  1700000000000 ''k3x9f''))
          1700000000001 ''q0q0q'')
     = ''session_1700000000000_k3x9f''"
proof -
  have d: "new_session_id 1700000000000 ''k3x9f'' = ''session_1700000000000_k3x9f''"
    by (simp add: new_session_id_def decimal.simps digit_char_def)
  have "fst (getOrCreateSessionId (snd (new_client Map.empty 1700000000000 ''k3x9f'')) 1700000000000 ''k3x9f'')
     = new_session_id 1700000000000 ''k3x9f''"
    by (simp add: new_client_def getOrCreateSessionId_def new_session_id_nonempty split: prod.splits)
  then show ?thesis by (simp add: get_after_clear d)
qed

text \<open>
  Claim C8, amended. Two calls of \<open>getOrCreateSessionId\<close> in a row return the same token
  (and the second changes nothing). After \<open>clearSession\<close> at clock reading \<open>now\<close> with
  random suffix \<open>rnd\<close>, the stored token, the client's \<open>sessionId\<close> and the token that
  \<open>getOrCreateSessionId\<close> returns are all \<open>session_<now>_<rnd>\<close>, which is never empty: a
  current token is present on return. That token differs from the value stored before the
  clear whenever the old value is not this very string, in particular whenever the old
  value was generated at a different clock reading.
\<close>

theorem session_identity:
  "getOrCreateSessionId (snd (getOrCreateSessionId st now rnd)) now' rnd'
     = getOrCreateSessionId st now rnd
   \<and> fst (getOrCreateSessionId (snd (clearSession c st now rnd)) now' rnd') = new_session_id now rnd
   \<and> sessionId (fst (clearSession c st now rnd)) = new_session_id now rnd
   \<and> snd (clearSession c st now rnd) SESSION_KEY = Some (new_session_id now rnd)
   \<and> new_session_id now rnd \<noteq> []
   \<and> (\<forall>old. st SESSION_KEY = Some old \<and> old \<noteq> new_session_id now rnd \<longrightarrow>
         fst (getOrCreateSessionId (snd (clearSession c st now rnd)) now' rnd') \<noteq> old)
   \<and> (\<forall>now0 rnd0. st SESSION_KEY = Some (new_session_id now0 rnd0) \<and> now0 \<noteq> now \<longrightarrow>
         fst (getOrCreateSessionId (snd (clearSession c st now rnd)) now' rnd')
           \<noteq> new_session_id now0 rnd0)"
proof (intro conjI allI impI)
  show "getOrCreateSessionId (snd (getOrCreateSessionId st now rnd)) now' rnd'
     = getOrCreateSessionId st now rnd"
    by (rule getOrCreate_twice)
  show "fst (getOrCreateSessionId (snd (clearSession c st now rnd)) now' rnd') = new_session_id now rnd"
    by (rule get_after_clear)
  show "sessionId (fst (clearSession c st now rnd)) = new_session_id now rnd"
    by (simp add: clearSession_eq)
  show "snd (clearSession c st now rnd) SESSION_KEY = Some (new_session_id now rnd)"
    by (simp add: clearSession_eq)
  show "new_session_id now rnd \<noteq> []"
    by (rule new_session_id_nonempty)
next
  fix old
  assume "st SESSION_KEY = Some old \<and> old \<noteq> new_session_id now rnd"
  then show "fst (getOrCreateSessionId (snd (clearSession c st now rnd)) now' rnd') \<noteq> old"
    by (auto simp: get_after_clear)
next
  fix now0 rnd0
  assume h: "st SESSION_KEY = Some (new_session_id now0 rnd0) \<and> now0 \<noteq> now"
  show "fst (getOrCreateSessionId (snd (clearSession c st now rnd)) now' rnd')
           \<noteq> new_session_id now0 rnd0"
  proof
    assume "fst (getOrCreateSessionId (snd (clearSession c st now rnd)) now' rnd')
           = new_session_id now0 rnd0"
    then have "new_session_id now rnd = new_session_id now0 rnd0" by (simp add: get_after_clear)
    then have "now = now0" by (rule new_session_id_clock)
    with h show False by simp
  qed
qed

theorem session_identity_witness:
  "fst (getOrCreateSessionId
          (snd (clearSession fresh_client (snd (new_client Map.empty 1700000000000 ''k3x9f''))
                  1700000000001 ''k3x9f''))
          1700000000002 ''q0q0q'')
     \<noteq> ''session_1700000000000_k3x9f''
   \<and> fst (getOrCreateSessionId
          (snd (clearSession fresh_client (snd (new_client Map.empty 1700000000000 ''k3x9f''))
                  1700000000001 ''k3x9f''))
          1700000000002 ''q0q0q'')
     = ''session_1700000000001_k3x9f''"
proof -
  let ?st = "snd (new_client Map.empty 1700000000000 ''k3x9f'')"
  have d: "new_session_id 1700000000000 ''k3x9f'' = ''session_1700000000000_k3x9f''"
    by (simp add: new_session_id_def decimal.simps digit_char_def)
  have d': "new_session_id 1700000000001 ''k3x9f'' = ''session_1700000000001_k3x9f''"
    by (simp add: new_session_id_def decimal.simps digit_char_def)
  have st: "?st SESSION_KEY = Some (new_session_id 1700000000000 ''k3x9f'')
      \<and> (1700000000000::nat) \<noteq> 1700000000001"
    by (simp add: new_client_def getOrCreateSessionId_def split: prod.splits)
  note s = session_identity [of ?st 1700000000001 "''k3x9f''" 1700000000002 "''q0q0q''" fresh_client]
  from s st have "fst (getOrCreateSessionId (snd (clearSession fresh_client ?st 1700000000001 ''k3x9f''))
          1700000000002 ''q0q0q'') \<noteq> new_session_id 1700000000000 ''k3x9f''"
    by blast
  moreover from s have "fst (getOrCreateSessionId (snd (clearSession fresh_client ?st 1700000000001 ''k3x9f''))
          1700000000002 ''q0q0q'') = new_session_id 1700000000001 ''k3x9f''"
    by blast
  ultimately show ?thesis unfolding d d' by simp
qed

section \<open>Properties of ClaudeTerminal\<close>

subsection \<open>What each operation leaves alone\<close>

lemma write_pty_fields [simp]:
  "isRunning (write_pty d t) = isRunning t"
  "ptyProcess (write_pty d t) = ptyProcess t"
  "spawned (write_pty d t) = spawned t"
  "readyOnce (write_pty d t) = readyOnce t"
  "emitted (write_pty d t) = emitted t"
  "projectPath (write_pty d t) = projectPath t"
  by (simp_all add: write_pty_def split: option.splits)

lemma resize_fields [simp]:
  "isRunning (resize cols rows t) = isRunning t"
  "ptyProcess (resize cols rows t) = ptyProcess t"
  by (simp_all add: resize_def split: option.splits)

lemma launchClaudeCode_fields [simp]:
  "isRunning (launchClaudeCode tk cd t) = isRunning t"
  "ptyProcess (launchClaudeCode tk cd t) = ptyProcess t"
  "spawned (launchClaudeCode tk cd t) = spawned t"
  by (simp_all add: launchClaudeCode_def)

lemma launch_all_fields:
  "isRunning (foldl (\<lambda>t' (tk, cd). launchClaudeCode tk cd t') t ls) = isRunning t
   \<and> ptyProcess (foldl (\<lambda>t' (tk, cd). launchClaudeCode tk cd t') t ls) = ptyProcess t
   \<and> spawned (foldl (\<lambda>t' (tk, cd). launchClaudeCode tk cd t') t ls) = spawned t"
  by (induction ls arbitrary: t) (simp_all split: prod.splits)

lemma emit_ready_fields [simp]:
  "isRunning (emit_ready t) = isRunning t"
  "ptyProcess (emit_ready t) = ptyProcess t"
  "spawned (emit_ready t) = spawned t"
  by (simp_all add: emit_ready_def launch_all_fields)

lemma write_pty_not_running: "\<not> isRunning t \<Longrightarrow> write_pty d t = t"
  by (simp add: write_pty_def split: option.splits)

lemma resize_not_running: "\<not> isRunning t \<Longrightarrow> resize cols rows t = t"
  by (simp add: resize_def split: option.splits)

lemma startSession_running:
  "\<not> isRunning t \<Longrightarrow> isRunning (startSession h t) = (spawn_error h = None)"
  by (simp add: startSession_def split: option.splits)

lemma startSession_handle:
  "\<not> isRunning t \<Longrightarrow> spawn_error h = None \<Longrightarrow> ptyProcess (startSession h t) = Some (spawned t)"
  by (simp add: startSession_def)

lemma handle_inv_step: "handle_inv t \<Longrightarrow> handle_inv (term_step t op)"
  by (cases op)
     (auto simp: handle_inv_def startSession_def startClaude_def kill_def on_data_def on_exit_def
           split: option.splits if_splits)

lemma handle_inv_run: "handle_inv t \<Longrightarrow> handle_inv (term_run t ops)"
  unfolding term_run_def by (induction ops arbitrary: t) (simp_all add: handle_inv_step)

lemma handle_inv_new: "handle_inv (new_terminal path cwd)"
  by (simp add: handle_inv_def new_terminal_def)

text \<open>
  Claim C10. While the session is not running, \<open>write\<close> and \<open>resize\<close> return the
  instance as it was: no call on any process, no event, nothing stored for later, the
  running flag and the handle unchanged (and the model has no path on which they raise).
  In every state that the operations and the process callbacks can reach from a new
  instance, a set running flag comes with a process handle that is not \<open>null\<close>.
\<close>

theorem write_resize_noop_when_not_running:
  "(\<not> isRunning t \<longrightarrow> write_pty d t = t \<and> resize cols rows t = t)
   \<and> (isRunning (term_run (new_terminal path cwd) ops) \<longrightarrow>
        ptyProcess (term_run (new_terminal path cwd) ops) \<noteq> None)"
  using handle_inv_run [OF handle_inv_new, of path cwd ops]
  by (auto simp: write_pty_not_running resize_not_running handle_inv_def)

theorem write_resize_noop_when_not_running_witness:
  "write_pty ''ls'' (new_terminal None ''/home/u'') = new_terminal None ''/home/u''
   \<and> resize 120 40 (new_terminal None ''/home/u'') = new_terminal None ''/home/u''
   \<and> ptyProcess (term_run (new_terminal None ''/home/u'') [StartSession linux_host]) \<noteq> None"
proof -
  have a: "\<not> isRunning (new_terminal None ''/home/u'')" by (simp add: new_terminal_def)
  have b: "isRunning (term_run (new_terminal None ''/home/u'') [StartSession linux_host])"
    by (simp add: term_run_def startSession_running a linux_host_def)
  show ?thesis
    using a b
      write_resize_noop_when_not_running [of "new_terminal None ''/home/u''" "''ls''" 120 40 None
        "''/home/u''" "[StartSession linux_host]"]
    by blast
qed

text \<open>
  Claim C3 as stated fails: \<open>startSession\<close> only tests the running flag, so after
  \<open>kill\<close>, and after the process has exited by itself, a later \<open>startSession\<close> on the
  same instance spawns again and the instance is running.
\<close>

theorem restart_after_kill_or_exit:
  "\<not> isRunning (kill (startSession linux_host (new_terminal None ''/home/u'')))
   \<and> isRunning (startSession linux_host (kill (startSession linux_host (new_terminal None ''/home/u''))))
   \<and> \<not> isRunning (on_exit 0 (startSession linux_host (new_terminal None ''/home/u'')))
   \<and> isRunning (startSession linux_host (on_exit 0 (startSession linux_host (new_terminal None ''/home/u''))))"
  by (simp add: startSession_def kill_def on_exit_def new_terminal_def linux_host_def emit_ready_def)

lemma startSession_spawned:
  "\<not> isRunning t \<Longrightarrow> spawn_error h = None \<Longrightarrow> spawned (startSession h t) = spawned t + 1"
  by (simp add: startSession_def)

lemma kill_not_running: "handle_inv t \<Longrightarrow> \<not> isRunning (kill t)"
  by (auto simp: kill_def handle_inv_def split: option.splits if_splits)

lemma startClaude_running:
  "\<not> isRunning t \<Longrightarrow> isRunning (startClaude tk cd h t) = (spawn_error h = None)"
  by (simp add: startClaude_def startSession_running)

text \<open>
  Claim C3, amended. In every reachable state, \<open>kill\<close> and the exit of a spawned process
  leave the instance not running, and a not-running instance stays so under \<open>write\<close>,
  \<open>resize\<close>, \<open>launchClaudeCode\<close> and the process callbacks. It is not
  terminal: \<open>startSession\<close> (and \<open>startClaude\<close>) on the same instance makes it
  running again exactly when the spawn succeeds, and then on a newly spawned process.
\<close>

theorem not_running_until_restart:
  assumes "t = term_run (new_terminal path cwd) ops"
  shows "\<not> isRunning (kill t)
   \<and> (h < spawned t \<longrightarrow> \<not> isRunning (on_exit h t))
   \<and> (\<not> isRunning t \<longrightarrow>
        \<not> isRunning (write_pty d t) \<and> \<not> isRunning (resize cols rows t)
        \<and> \<not> isRunning (launchClaudeCode tk cd t)
        \<and> \<not> isRunning (on_data h d t) \<and> \<not> isRunning (on_exit h t)
        \<and> isRunning (startSession hst t) = (spawn_error hst = None)
        \<and> isRunning (startClaude tk cd hst t) = (spawn_error hst = None)
        \<and> (spawn_error hst = None \<longrightarrow>
             ptyProcess (startSession hst t) = Some (spawned t)
             \<and> spawned (startSession hst t) = spawned t + 1))"
proof -
  have inv: "handle_inv t"
    unfolding assms by (rule handle_inv_run [OF handle_inv_new])
  have 1: "\<not> isRunning (kill t)" using inv by (rule kill_not_running)
  have 2: "h < spawned t \<longrightarrow> \<not> isRunning (on_exit h t)" by (simp add: on_exit_def)
  have 3: "\<not> isRunning t \<longrightarrow> \<not> isRunning (on_data h d t) \<and> \<not> isRunning (on_exit h t)"
    by (simp add: on_exit_def on_data_def)
  show ?thesis
    using 1 2 3
    by (simp add: startSession_running startClaude_running startSession_handle startSession_spawned)
qed

theorem not_running_until_restart_witness:
  "\<not> isRunning (kill (term_run (new_terminal None ''/home/u'') [StartSession linux_host]))
   \<and> \<not> isRunning (write_pty ''ls'' (term_run (new_terminal None ''/home/u'') [StartSession linux_host, Kill]))
   \<and> isRunning (startSession linux_host (term_run (new_terminal None ''/home/u'') [StartSession linux_host, Kill]))
   \<and> ptyProcess (startSession linux_host (term_run (new_terminal None ''/home/u'') [StartSession linux_host, Kill]))
       = Some 1"
proof -
  let ?t1 = "term_run (new_terminal None ''/home/u'') [StartSession linux_host]"
  let ?t2 = "term_run (new_terminal None ''/home/u'') [StartSession linux_host, Kill]"
  have k: "\<not> isRunning ?t2"
    by (simp add: term_run_def kill_def startSession_def new_terminal_def linux_host_def)
  have sp: "spawned ?t2 = 1"
    by (simp add: term_run_def kill_def startSession_def new_terminal_def linux_host_def
          split: option.splits)
  have ok: "spawn_error linux_host = None" by (simp add: linux_host_def)
  have a: "\<not> isRunning (kill ?t1)"
    using not_running_until_restart [of ?t1 None "''/home/u''" "[StartSession linux_host]"] by blast
  note b = not_running_until_restart [of ?t2 None "''/home/u''" "[StartSession linux_host, Kill]"
      0 "''ls''" 80 24 None None linux_host, OF refl]
  from b k have "\<not> isRunning (write_pty ''ls'' ?t2)" by blast
  moreover from b k ok have "isRunning (startSession linux_host ?t2)" by blast
  moreover from b k ok have "ptyProcess (startSession linux_host ?t2) = Some (spawned ?t2)" by blast
  ultimately show ?thesis using a sp by simp
qed


lemma launchClaudeCode_running:
  "isRunning t \<Longrightarrow> ptyProcess t = Some h \<Longrightarrow>
   pty_calls (launchClaudeCode tk cd t) =
     pty_calls t @ [PtyWrite h banner, PtyWrite h (claudeCommand tk cd @ [CHR 0x0A])]"
  by (simp add: launchClaudeCode_def write_pty_def)

text \<open>
  Claim C9. For the task \<open>{title: "Fix bug", priority: "high"}\<close> and the context data
  \<open>"urgent"\<close> the composed command is the base invocation followed by the context flags
  for \<open>Current Task: Fix bug\<close>, \<open>Priority: high\<close> and \<open>urgent\<close>, in that order; in
  general a missing priority omits the second flag, a missing task the first two, and
  missing context data the last. On a running session \<open>launchClaudeCode\<close> writes the
  banner and then that command followed by a newline.
\<close>

theorem claudeCommand_composition:
  \<open>claudeCommand (Some \<lparr>title = Some ''Fix bug'', priority = Some ''high''\<rparr>) (Some ''urgent'')
     = ''claude --context "Current Task: Fix bug" --context "Priority: high" --context "urgent"''
   \<and> claudeCommand (Some \<lparr>title = Some ttl, priority = Some (p # ps)\<rparr>) (Some (x # xs))
     = ''claude --context "Current Task: '' @ ttl @ ''" --context "Priority: '' @ p # ps
         @ ''" --context "'' @ x # xs @ ''"''
   \<and> claudeCommand (Some \<lparr>title = Some ttl, priority = None\<rparr>) (Some (x # xs))
     = ''claude --context "Current Task: '' @ ttl @ ''" --context "'' @ x # xs @ ''"''
   \<and> claudeCommand None (Some (x # xs)) = ''claude --context "'' @ x # xs @ ''"''
   \<and> claudeCommand (Some \<lparr>title = Some ttl, priority = Some (p # ps)\<rparr>) None
     = ''claude --context "Current Task: '' @ ttl @ ''" --context "Priority: '' @ p # ps @ ''"''
   \<and> claudeCommand (Some \<lparr>title = Some ttl, priority = None\<rparr>) None
     = ''claude --context "Current Task: '' @ ttl @ ''"''
   \<and> claudeCommand None None = ''claude''
   \<and> (isRunning t \<and> ptyProcess t = Some h \<longrightarrow>
        pty_calls (launchClaudeCode tk cd t) =
          pty_calls t @ [PtyWrite h banner, PtyWrite h (claudeCommand tk cd @ [CHR 0x0A])])\<close>
  by (simp add: claudeCommand_def template_str_def option_truthy_def launchClaudeCode_running)

theorem claudeCommand_composition_witness:
  \<open>pty_calls (launchClaudeCode (Some \<lparr>title = Some ''Fix bug'', priority = Some ''high''\<rparr>)
       (Some ''urgent'') (startSession linux_host (new_terminal None ''/home/u'')))
     = [Spawn 0 ''/bin/zsh'' ''/home/u'' 80 24,
        PtyWrite 0 banner,
        PtyWrite 0 (''claude --context "Current Task: Fix bug" --context "Priority: high" --context "urgent"''
                     @ [CHR 0x0A])]\<close>
proof -
  let ?t = "startSession linux_host (new_terminal None ''/home/u'')"
  have t: "isRunning ?t \<and> ptyProcess ?t = Some 0"
    by (simp add: startSession_def new_terminal_def linux_host_def)
  have c: "pty_calls ?t = [Spawn 0 ''/bin/zsh'' ''/home/u'' 80 24]"
    by (simp add: startSession_def new_terminal_def linux_host_def emit_ready_def select_shell_def)
  note w = claudeCommand_composition [of "''x''" "CHR ''p''" "[]" "CHR ''x''" "[]" ?t 0
      "Some \<lparr>title = Some ''Fix bug'', priority = Some ''high''\<rparr>" "Some ''urgent''"]
  from w have cmd: \<open>claudeCommand (Some \<lparr>title = Some ''Fix bug'', priority = Some ''high''\<rparr>) (Some ''urgent'')
     = ''claude --context "Current Task: Fix bug" --context "Priority: high" --context "urgent"''\<close>
    by blast
  from w t have "pty_calls (launchClaudeCode (Some \<lparr>title = Some ''Fix bug'', priority = Some ''high''\<rparr>)
       (Some ''urgent'') ?t) =
     pty_calls ?t @ [PtyWrite 0 banner,
       PtyWrite 0 (claudeCommand (Some \<lparr>title = Some ''Fix bug'', priority = Some ''high''\<rparr>)
                     (Some ''urgent'') @ [CHR 0x0A])]"
    by blast
  then show ?thesis unfolding cmd c by simp
qed

section \<open>Properties of the chat operations\<close>

subsection \<open>The catch block\<close>










lemma chat_settle_clears: "\<not> isRequestInProgress (snd (chat_settle c onStreamUpdate ts r))"
  by (simp add: chat_settle_def)

lemma sendChatMessage_busy:
  "isRequestInProgress c \<Longrightarrow>
   sendChatMessage c message onStreamUpdate ts1 ts2 transport
     = (Rejected (ErrorObj chat_single_flight_error), c, [])"
  by (simp add: sendChatMessage_def chat_enter_def)

lemma sendChatMessage_idle:
  "\<not> isRequestInProgress c \<Longrightarrow>
   sendChatMessage c message onStreamUpdate ts1 ts2 transport =
     (fst (chat_settle (c\<lparr>isRequestInProgress := True\<rparr>) onStreamUpdate ts2
        (fst (request (c\<lparr>isRequestInProgress := True\<rparr>) ''/api/chat''
           \<lparr>http_method = Some ''POST'',
            http_body = Some (chat_request_body (c\<lparr>isRequestInProgress := True\<rparr>) message ts1)\<rparr>
           (Some CHAT_TIMEOUT) transport))),
      snd (chat_settle (c\<lparr>isRequestInProgress := True\<rparr>) onStreamUpdate ts2
        (fst (request (c\<lparr>isRequestInProgress := True\<rparr>) ''/api/chat''
           \<lparr>http_method = Some ''POST'',
            http_body = Some (chat_request_body (c\<lparr>isRequestInProgress := True\<rparr>) message ts1)\<rparr>
           (Some CHAT_TIMEOUT) transport))),
      snd (request (c\<lparr>isRequestInProgress := True\<rparr>) ''/api/chat''
           \<lparr>http_method = Some ''POST'',
            http_body = Some (chat_request_body (c\<lparr>isRequestInProgress := True\<rparr>) message ts1)\<rparr>
           (Some CHAT_TIMEOUT) transport))"
  by (simp add: sendChatMessage_def chat_enter_def split: prod.splits)







subsection \<open>Single flight\<close>

lemma chat_inv_start: "chat_inv (chat_start c)"
  by (simp add: chat_inv_def chat_start_def)

lemma chat_inv_step: "chat_inv s \<Longrightarrow> chat_inv (chat_step s ev)"
proof (cases ev)
  case CallChat
  assume "chat_inv s"
  with CallChat show ?thesis
    by (auto simp: chat_inv_def chat_enter_def)
next
  case (SettleChat onStreamUpdate ts r)
  assume "chat_inv s"
  with SettleChat show ?thesis
    by (auto simp: chat_inv_def chat_settle_def)
qed

lemma chat_inv_foldl: "chat_inv s \<Longrightarrow> chat_inv (foldl chat_step s evs)"
  by (induction evs arbitrary: s) (simp_all add: chat_inv_step)

lemma chat_inv_run: "chat_inv (chat_run c evs)"
  unfolding chat_run_def by (rule chat_inv_foldl) (rule chat_inv_start)

text \<open>
  Claim C2. A call that begins while the flag is set is rejected with the client unchanged
  and no transport event. Settling clears the flag on every path, so after a whole call
  the flag is clear and the next call passes the guard. Over every interleaving of calls
  and settlings on one client at most one call is awaiting its request, and the flag is
  set exactly then; a further call at that point is turned away and changes nothing else,
  and once the outstanding call has settled the next call is accepted.
\<close>

theorem chat_single_flight:
  "(isRequestInProgress c \<longrightarrow>
      sendChatMessage c message onStreamUpdate ts1 ts2 transport
        = (Rejected (ErrorObj chat_single_flight_error), c, []))
   \<and> \<not> isRequestInProgress (snd (chat_settle c onStreamUpdate ts2 r))
   \<and> (\<not> isRequestInProgress c \<longrightarrow>
        \<not> isRequestInProgress (fst (snd (sendChatMessage c message onStreamUpdate ts1 ts2 transport)))
        \<and> chat_enter (fst (snd (sendChatMessage c message onStreamUpdate ts1 ts2 transport)))
            = Inr ((fst (snd (sendChatMessage c message onStreamUpdate ts1 ts2 transport)))
                     \<lparr>isRequestInProgress := True\<rparr>))
   \<and> in_flight (chat_run c evs) \<le> 1
   \<and> isRequestInProgress (sys_client (chat_run c evs)) = (in_flight (chat_run c evs) = 1)
   \<and> (in_flight (chat_run c evs) = 1 \<longrightarrow>
        chat_step (chat_run c evs) CallChat
          = (chat_run c evs)\<lparr>turned_away := turned_away (chat_run c evs) + 1\<rparr>
        \<and> in_flight (chat_step (chat_step (chat_run c evs) (SettleChat onStreamUpdate ts2 r)) CallChat) = 1
        \<and> turned_away (chat_step (chat_step (chat_run c evs) (SettleChat onStreamUpdate ts2 r)) CallChat)
            = turned_away (chat_run c evs))"
proof -
  have inv: "chat_inv (chat_run c evs)" by (rule chat_inv_run)
  have 1: "isRequestInProgress c \<longrightarrow>
      sendChatMessage c message onStreamUpdate ts1 ts2 transport
        = (Rejected (ErrorObj chat_single_flight_error), c, [])"
    by (simp add: sendChatMessage_busy)
  have 2: "\<not> isRequestInProgress (snd (chat_settle c onStreamUpdate ts2 r))"
    by (rule chat_settle_clears)
  have 3: "\<not> isRequestInProgress c \<longrightarrow>
        \<not> isRequestInProgress (fst (snd (sendChatMessage c message onStreamUpdate ts1 ts2 transport)))
        \<and> chat_enter (fst (snd (sendChatMessage c message onStreamUpdate ts1 ts2 transport)))
            = Inr ((fst (snd (sendChatMessage c message onStreamUpdate ts1 ts2 transport)))
                     \<lparr>isRequestInProgress := True\<rparr>)"
    by (simp add: sendChatMessage_idle chat_settle_clears chat_enter_def)
  have 4: "in_flight (chat_run c evs) \<le> 1"
    and 5: "isRequestInProgress (sys_client (chat_run c evs)) = (in_flight (chat_run c evs) = 1)"
    using inv by (simp_all add: chat_inv_def)
  have 6: "in_flight (chat_run c evs) = 1 \<longrightarrow>
        chat_step (chat_run c evs) CallChat
          = (chat_run c evs)\<lparr>turned_away := turned_away (chat_run c evs) + 1\<rparr>
        \<and> in_flight (chat_step (chat_step (chat_run c evs) (SettleChat onStreamUpdate ts2 r)) CallChat) = 1
        \<and> turned_away (chat_step (chat_step (chat_run c evs) (SettleChat onStreamUpdate ts2 r)) CallChat)
            = turned_away (chat_run c evs)"
    using 5 by (simp add: chat_enter_def chat_settle_def)
  from 1 2 3 4 5 6 show ?thesis by blast
qed

theorem chat_single_flight_witness:
  "sendChatMessage busy_client (JStr ''again'') None ''2026-01-01T00:00:00.000Z''
       ''2026-01-01T00:00:07.000Z'' ok_reply
     = (Rejected (ErrorObj chat_single_flight_error), busy_client, [])
   \<and> \<not> isRequestInProgress (fst (snd (sendChatMessage fresh_client (JStr ''hello'') None
          ''2026-01-01T00:00:00.000Z'' ''2026-01-01T00:00:07.000Z'' offline)))
   \<and> turned_away (chat_step (chat_run fresh_client [CallChat]) CallChat) = 1
   \<and> in_flight (chat_step (chat_run fresh_client [CallChat]) CallChat) = 1
   \<and> in_flight (chat_step (chat_step (chat_run fresh_client [CallChat])
         (SettleChat None ''2026-01-01T00:00:07.000Z'' (Inr JNull))) CallChat) = 1"
proof -
  let ?t1 = "''2026-01-01T00:00:00.000Z''" and ?t2 = "''2026-01-01T00:00:07.000Z''"
  have idle: "\<not> isRequestInProgress fresh_client" by (simp add: fresh_client_fields)
  have busy: "isRequestInProgress busy_client" by (simp add: busy_client_def)
  have one: "in_flight (chat_run fresh_client [CallChat]) = 1"
    and none: "turned_away (chat_run fresh_client [CallChat]) = 0"
    by (simp_all add: chat_run_def chat_start_def chat_enter_def)
  note a = chat_single_flight [of busy_client "JStr ''again''" None ?t1 ?t2 ok_reply "Inr JNull" "[]"]
  note b = chat_single_flight [of fresh_client "JStr ''hello''" None ?t1 ?t2 offline "Inr JNull" "[CallChat]"]
  from a busy have 1: "sendChatMessage busy_client (JStr ''again'') None ?t1 ?t2 ok_reply
     = (Rejected (ErrorObj chat_single_flight_error), busy_client, [])" by blast
  from b idle have 2: "\<not> isRequestInProgress (fst (snd (sendChatMessage fresh_client (JStr ''hello'') None
          ?t1 ?t2 offline)))" by blast
  from b one have 3: "chat_step (chat_run fresh_client [CallChat]) CallChat
          = (chat_run fresh_client [CallChat])\<lparr>turned_away := turned_away (chat_run fresh_client [CallChat]) + 1\<rparr>"
    by blast
  from b one have 4: "in_flight (chat_step (chat_step (chat_run fresh_client [CallChat])
         (SettleChat None ?t2 (Inr JNull))) CallChat) = 1" by blast
  from 1 2 4 show ?thesis unfolding 3 by (simp add: one none)
qed

end
